theory Spec2Isabelle
  imports Complex_Main
begin

section \<open>Data model of \<^verbatim>\<open>tacotron/models/tacotron.py\<close>\<close>

text \<open>
  The class \<^verbatim>\<open>Tacotron\<close> has three methods that are called in order:
  \<^verbatim>\<open>initialize\<close>, \<^verbatim>\<open>add_loss\<close> and \<^verbatim>\<open>add_optimizer\<close> (with its helper
  \<^verbatim>\<open>_learning_rate_decay\<close>). Each is embedded as a function that takes the object's
  attributes as a record and returns the outcome (\<open>None\<close> for a normal return,
  \<open>Some e\<close> for a raised exception) together with the attributes as they are at that
  moment.

  Tensors that only pass through the code (inputs, targets, network outputs) are values of
  an arbitrary type \<open>'t\<close>. Scalars that the code computes with are reals; the real numbers
  stand for the float32 values of the program, so rounding is not modelled.
\<close>

datatype error =
    ValueError string
  | RuntimeError string
  | AssertionError
  | AttributeError string
  | UnboundLocalError string

text \<open>
  A float scalar is a finite real or not-a-number; \<open>0 / 0\<close> is the only place where the
  modelled code produces the latter.
\<close>

datatype scalar = Finite real | NaN

fun fadd :: "scalar \<Rightarrow> scalar \<Rightarrow> scalar" where
  "fadd (Finite a) (Finite b) = Finite (a + b)"
| "fadd _ _ = NaN"

fun fdiv :: "real \<Rightarrow> real \<Rightarrow> scalar" where
  "fdiv a b = (if b = 0 then NaN else Finite (a / b))"

text \<open>
  The hyperparameters that \<^verbatim>\<open>tacotron.py\<close> itself reads. The remaining ones
  (layer sizes, dropout rates, ...) are only handed on to the network modules.
  \<open>max_iters\<close>, \<open>max_text_length\<close> and \<open>max_frame_num\<close> are counts.
\<close>

record hparams =
  mask_decoder :: bool
  num_lf0 :: nat
  num_mgc :: nat
  num_bap :: nat
  outputs_per_step :: nat
  tacotron_teacher_forcing_mode :: string
  max_iters :: nat
  tacotron_swap_with_cpu :: bool
  max_text_length :: nat
  max_frame_num :: nat
  tacotron_reg_weight :: real
  tacotron_decay_learning_rate :: bool
  tacotron_decay_steps :: int
  tacotron_decay_rate :: real
  tacotron_initial_learning_rate :: real
  tacotron_start_decay :: int
  tacotron_final_learning_rate :: real
  tacotron_clip_gradients :: bool

text \<open>
  The decoding helper chosen by \<^verbatim>\<open>initialize\<close> (lines 93-97), with the arguments
  it is constructed from (the hyperparameters apart).
\<close>

datatype 't helper =
    TacoTrainingHelper 't 't nat bool bool "'t option"
  | TacoTestHelper 't nat

text \<open>
  An operation of the dataflow graph: its name, the operations whose outputs it reads, and
  its control inputs (the operations that must have run before it may run).
\<close>

datatype op = Op (op_name: string) (op_inputs: "op list") (control_inputs: "op list")

text \<open>
  A rank-3 float tensor with its shape, as the alignments are: element \<open>elem t b i j\<close>
  for \<open>b < dim0 t\<close>, \<open>i < dim1 t\<close>, \<open>j < dim2 t\<close>.
\<close>

record tensor3 =
  dim0 :: nat
  dim1 :: nat
  dim2 :: nat
  elem :: "nat \<Rightarrow> nat \<Rightarrow> nat \<Rightarrow> real"

text \<open>
  The attributes of a \<^verbatim>\<open>Tacotron\<close> object. An attribute that has not been assigned
  yet is \<open>None\<close>. The five attributes that copy an optional argument of
  \<^verbatim>\<open>initialize\<close> hold \<open>Some None\<close> when they were assigned Python's \<^verbatim>\<open>None\<close>.
\<close>

record 't tacotron =
  self_helper :: "'t helper option"
  self_ratio :: "'t option"
  self_inputs :: "'t option"
  self_input_lengths :: "'t option"
  self_decoder_outputs :: "'t option"
  self_final_outputs :: "'t option"
  self_alignments :: "tensor3 option"
  self_stop_token_outputs :: "'t option"
  self_stop_token_targets :: "'t option option"
  self_lf0_outputs :: "'t option"
  self_mgc_outputs :: "'t option"
  self_bap_outputs :: "'t option"
  self_lf0_targets :: "'t option option"
  self_mgc_targets :: "'t option option"
  self_bap_targets :: "'t option option"
  self_targets_lengths :: "'t option option"
  self_world_targets :: "'t option"
  self_before_loss :: "scalar option"
  self_after_loss :: "scalar option"
  self_stop_token_loss :: "scalar option"
  self_regularization_loss :: "scalar option"
  self_attention_loss :: "scalar option"
  self_loss :: "scalar option"
  self_decay_steps :: "int option"
  self_decay_rate :: "real option"
  self_learning_rate :: "real option"
  self_gradients :: "op option"
  self_optimize :: "op option"

text \<open>\<^verbatim>\<open>__init__\<close> (lines 15-16) stores the hyperparameters and nothing else.\<close>

definition Tacotron :: "'t tacotron" where
  "Tacotron =
     \<lparr> self_helper = None, self_ratio = None, self_inputs = None, self_input_lengths = None,
       self_decoder_outputs = None, self_final_outputs = None, self_alignments = None,
       self_stop_token_outputs = None, self_stop_token_targets = None,
       self_lf0_outputs = None, self_mgc_outputs = None, self_bap_outputs = None,
       self_lf0_targets = None, self_mgc_targets = None, self_bap_targets = None,
       self_targets_lengths = None, self_world_targets = None, self_before_loss = None,
       self_after_loss = None, self_stop_token_loss = None, self_regularization_loss = None,
       self_attention_loss = None, self_loss = None, self_decay_steps = None,
       self_decay_rate = None, self_learning_rate = None, self_gradients = None,
       self_optimize = None \<rparr>"

section \<open>The learning-rate schedule (lines 258-282)\<close>

text \<open>
  \<^verbatim>\<open>tf.train.exponential_decay(lr, step, decay_steps, decay_rate)\<close> without staircase is
  \<open>lr * decay_rate ^ (step / decay_steps)\<close> with a real exponent. \<open>powr\<close> is that power
  for a positive base; the float results of a division by \<open>decay_steps = 0\<close> and of a
  power of a base that is not positive are not modelled.
\<close>

definition exponential_decay :: "real \<Rightarrow> int \<Rightarrow> int \<Rightarrow> real \<Rightarrow> real" where
  "exponential_decay learning_rate global_step decay_steps decay_rate =
     learning_rate * decay_rate powr (real_of_int global_step / real_of_int decay_steps)"

text \<open>
  \<^verbatim>\<open>_learning_rate_decay\<close> reads \<^verbatim>\<open>self.decay_steps\<close> and \<^verbatim>\<open>self.decay_rate\<close>,
  which \<^verbatim>\<open>add_optimizer\<close> assigns just before the call.
\<close>

definition learning_rate_decay :: "hparams \<Rightarrow> 't tacotron \<Rightarrow> real \<Rightarrow> int \<Rightarrow> error + real" where
  "learning_rate_decay hp m init_lr global_step =
     (case self_decay_steps m of
        None \<Rightarrow> Inl (AttributeError ''decay_steps'')
      | Some decay_steps \<Rightarrow>
         (case self_decay_rate m of
            None \<Rightarrow> Inl (AttributeError ''decay_rate'')
          | Some decay_rate \<Rightarrow>
              (let lr = exponential_decay init_lr (global_step - tacotron_start_decay hp)
                          decay_steps decay_rate
               in Inr (min (max lr (tacotron_final_learning_rate hp)) init_lr))))"



section \<open>The optimizer (lines 226-256)\<close>

text \<open>
  The part of the graph that \<^verbatim>\<open>add_optimizer\<close> sees: the operations collected under
  \<^verbatim>\<open>tf.GraphKeys.UPDATE_OPS\<close> (the updates of the normalization statistics) and the
  control dependencies that are in force where the method is called.
\<close>

record graph =
  update_ops :: "op list"
  control_deps :: "op list"

text \<open>
  An operation created in a graph takes the control dependencies in force as its control
  inputs; \<^verbatim>\<open>with tf.control_dependencies(deps)\<close> adds \<open>deps\<close> to them for the
  operations created in its body.
\<close>

definition create_op :: "graph \<Rightarrow> string \<Rightarrow> op list \<Rightarrow> op" where
  "create_op g name ins = Op name ins (control_deps g)"

definition control_dependencies :: "graph \<Rightarrow> op list \<Rightarrow> graph" where
  "control_dependencies g deps = g\<lparr>control_deps := control_deps g @ deps\<rparr>"

text \<open>
  \<^verbatim>\<open>add_optimizer\<close> at a value \<open>global_step\<close> of the step counter. The loss, the
  variables and the step counter enter the gradient and update operations as the
  operations that produce them.
\<close>

definition add_optimizer :: "graph \<Rightarrow> hparams \<Rightarrow> 't tacotron \<Rightarrow> int \<Rightarrow> error option \<times> 't tacotron" where
  "add_optimizer g hp m global_step =
     (let lr_m =
            (if tacotron_decay_learning_rate hp then
               (let m1 = m\<lparr>self_decay_steps := Some (tacotron_decay_steps hp),
                           self_decay_rate := Some (tacotron_decay_rate hp)\<rparr>
                in (learning_rate_decay hp m1 (tacotron_initial_learning_rate hp) global_step, m1))
             else (Inr (tacotron_initial_learning_rate hp), m))
      in case lr_m of
           (Inl e, m1) \<Rightarrow> (Some e, m1)
         | (Inr lr, m1) \<Rightarrow>
            (let m2 = m1\<lparr>self_learning_rate := Some lr\<rparr>
             in case self_loss m2 of
                  None \<Rightarrow> (Some (AttributeError ''loss''), m2)
                | Some l \<Rightarrow>
                   (let gradients = create_op g ''compute_gradients'' [Op ''loss'' [] []];
                        m3 = m2\<lparr>self_gradients := Some gradients\<rparr>;
                        clipped_gradients =
                          (if tacotron_clip_gradients hp
                           then create_op g ''clip_by_global_norm'' [gradients]
                           else gradients);
                        g' = control_dependencies g (update_ops g)
                    in (None,
                        m3\<lparr>self_optimize :=
                             Some (create_op g' ''apply_gradients''
                                     [clipped_gradients, Op ''variables'' [] [],
                                      Op ''global_step'' [] []])\<rparr>))))"

text \<open>
  An execution of the graph runs operations one after another; an operation may run only
  when every operation it reads from and every control input has run.
\<close>

fun runs :: "op list \<Rightarrow> op list \<Rightarrow> bool" where
  "runs done [] = True"
| "runs done (x # xs) =
     (list_all (\<lambda>d. d \<in> set done) (op_inputs x @ control_inputs x) \<and> runs (done @ [x]) xs)"

section \<open>Model construction: \<^verbatim>\<open>initialize\<close> (lines 19-176)\<close>

text \<open>
  The arguments of \<^verbatim>\<open>initialize\<close>. An optional argument is \<open>None\<close> when the caller
  leaves it out (Python's \<^verbatim>\<open>None\<close>).
\<close>

record 't init_args =
  inputs :: 't
  input_lengths :: 't
  lf0_targets :: "'t option"
  mgc_targets :: "'t option"
  bap_targets :: "'t option"
  stop_token_targets :: "'t option"
  targets_lengths :: "'t option"
  gta :: bool
  global_step :: "'t option"
  is_training :: bool
  is_evaluating :: bool

text \<open>
  The arguments that line 107-111 hand to \<^verbatim>\<open>dynamic_decode\<close> (the decoder cell and its
  initial state apart).
\<close>

record 't decode_call =
  dd_helper :: "'t helper"
  dd_impute_finished :: bool
  dd_maximum_iterations :: "nat option"
  dd_swap_memory :: bool

text \<open>
  The collaborators of \<^verbatim>\<open>tacotron.py\<close> whose code is not part of the file: the network
  modules (\<^verbatim>\<open>tacotron.models.modules\<close>, the decoder cell, the helpers) and the
  tensorflow operations, on tensors that are present. They are parameters of the model,
  taken to return normally unless their type has an error. Each field names the lines of
  the source it stands for.
\<close>

record 't env =
  shape0 :: "'t \<Rightarrow> 't"
    \<comment> \<open>line 47: \<^verbatim>\<open>tf.shape(inputs)[0]\<close>\<close>
  encoder :: "bool \<Rightarrow> 't \<Rightarrow> 't \<Rightarrow> 't"
    \<comment> \<open>lines 55-66: embedding and encoder cell, from \<open>is_training\<close>, the inputs and their lengths\<close>
  expand_dims :: "'t \<Rightarrow> 't"
    \<comment> \<open>\<^verbatim>\<open>tf.expand_dims(x, axis=-1)\<close>\<close>
  concat :: "'t list \<Rightarrow> 't"
    \<comment> \<open>\<^verbatim>\<open>tf.concat(xs, axis=-1)\<close>\<close>
  helper_ratio :: "'t helper \<Rightarrow> 't"
    \<comment> \<open>line 146: \<^verbatim>\<open>self.helper._ratio\<close>\<close>
  decode :: "bool \<Rightarrow> bool \<Rightarrow> 't \<Rightarrow> 't decode_call \<Rightarrow> 't \<times> 't \<times> tensor3"
    \<comment> \<open>lines 74-89, 101, 107-111, 143: the decoder cell built from \<open>is_training\<close>,
        \<open>is_evaluating\<close> and the encoder outputs, decoded; the frames, the stop tokens and
        the alignments\<close>
  reshape_frames :: "'t \<Rightarrow> 't \<Rightarrow> nat \<Rightarrow> 't"
    \<comment> \<open>line 116\<close>
  reshape_stop :: "'t \<Rightarrow> 't \<Rightarrow> 't"
    \<comment> \<open>line 117\<close>
  postnet :: "bool \<Rightarrow> 't \<Rightarrow> nat \<Rightarrow> 't"
    \<comment> \<open>lines 121-129: the projected residual\<close>
  add :: "'t \<Rightarrow> 't \<Rightarrow> 't"
    \<comment> \<open>line 133\<close>
  slice_last :: "'t \<Rightarrow> nat \<Rightarrow> nat \<Rightarrow> 't"
    \<comment> \<open>lines 136-139: \<^verbatim>\<open>tf.slice\<close> along the last axis, from a start, of a size\<close>
  squeeze_last :: "'t \<Rightarrow> 't"
    \<comment> \<open>line 137\<close>
  MaskedMSE :: "'t \<Rightarrow> 't \<Rightarrow> 't option \<Rightarrow> error + scalar"
    \<comment> \<open>lines 187, 189: targets, outputs, target lengths\<close>
  MaskedSigmoidCrossEntropy :: "'t option \<Rightarrow> 't \<Rightarrow> 't option \<Rightarrow> error + scalar"
    \<comment> \<open>line 191: stop-token targets, outputs, target lengths\<close>
  GuidedAttention :: "nat \<Rightarrow> nat \<Rightarrow> nat \<Rightarrow> nat \<Rightarrow> real"
    \<comment> \<open>line 199: the penalty matrix for \<open>N\<close> and \<open>T\<close>, at row \<open>i\<close> and column \<open>j\<close>\<close>
  mean_abs_error :: "'t \<Rightarrow> 't \<Rightarrow> scalar"
    \<comment> \<open>lines 204, 206: \<^verbatim>\<open>tf.reduce_mean(tf.abs(a - b))\<close>\<close>
  mean_sigmoid_cross_entropy :: "'t \<Rightarrow> 't \<Rightarrow> scalar"
    \<comment> \<open>line 208: labels, logits\<close>

text \<open>
  A tensorflow operation cannot take Python's \<^verbatim>\<open>None\<close> for a tensor: the conversion
  raises \<^verbatim>\<open>ValueError\<close>.
\<close>

definition none_values :: error where
  "none_values = ValueError ''None values not supported.''"

definition tf_expand_dims :: "'t env \<Rightarrow> 't option \<Rightarrow> error + 't" where
  "tf_expand_dims env x =
     (case x of None \<Rightarrow> Inl none_values | Some t \<Rightarrow> Inr (expand_dims env t))"

fun present :: "'a option list \<Rightarrow> 'a list option" where
  "present [] = Some []"
| "present (None # xs) = None"
| "present (Some x # xs) = (case present xs of None \<Rightarrow> None | Some ys \<Rightarrow> Some (x # ys))"

definition tf_concat :: "'t env \<Rightarrow> 't option list \<Rightarrow> error + 't" where
  "tf_concat env xs =
     (case present xs of None \<Rightarrow> Inl none_values | Some ts \<Rightarrow> Inr (concat env ts))"

text \<open>Lines 35-44: the checks of the arguments, in the order of the source.\<close>

definition config_checks :: "hparams \<Rightarrow> 't init_args \<Rightarrow> error option" where
  "config_checks hp a =
     (if lf0_targets a = None \<and> stop_token_targets a \<noteq> None then
        Some (ValueError ''no lf0 targets were provided but token_targets were given'')
      else if lf0_targets a \<noteq> None \<and> stop_token_targets a = None \<and> \<not> gta a then
        Some (ValueError ''Mel targets are provided without corresponding token_targets'')
      else if gta a \<and> mgc_targets a \<noteq> None then
        Some (ValueError ''Linear spectrogram prediction is not supported in GTA mode!'')
      else if is_training a \<and> mask_decoder hp \<and> targets_lengths a = None then
        Some (RuntimeError
                ''Model set to mask paddings but no targets lengths provided for the mask!'')
      else if is_training a \<and> is_evaluating a then
        Some (RuntimeError
                ''Model can not be in training and evaluation modes at the same time!'')
      else None)"

text \<open>Lines 50-52: the two assertions.\<close>

definition assertions :: "hparams \<Rightarrow> 't init_args \<Rightarrow> error option" where
  "assertions hp a =
     (if tacotron_teacher_forcing_mode hp \<noteq> ''constant''
         \<and> tacotron_teacher_forcing_mode hp \<noteq> ''scheduled'' then Some AssertionError
      else if tacotron_teacher_forcing_mode hp = ''scheduled'' \<and> is_training a
              \<and> global_step a = None then Some AssertionError
      else None)"

text \<open>Line 49.\<close>

definition target_depth :: "hparams \<Rightarrow> nat" where
  "target_depth hp = num_lf0 hp + num_mgc hp + num_bap hp"

text \<open>
  Lines 93-97: the helper. With targets to force, the decoder targets are the
  concatenation of the three target tensors.
\<close>

definition make_helper :: "'t env \<Rightarrow> hparams \<Rightarrow> 't init_args \<Rightarrow> error + 't helper" where
  "make_helper env hp a =
     (if is_training a \<or> is_evaluating a \<or> gta a then
        (case tf_expand_dims env (lf0_targets a) of
           Inl e \<Rightarrow> Inl e
         | Inr lf0 \<Rightarrow>
            (case tf_concat env [Some lf0, mgc_targets a, bap_targets a] of
               Inl e \<Rightarrow> Inl e
             | Inr decoder_targets \<Rightarrow>
                 Inr (TacoTrainingHelper (shape0 env (inputs a)) decoder_targets
                        (target_depth hp) (gta a) (is_evaluating a) (global_step a))))
      else Inr (TacoTestHelper (shape0 env (inputs a)) (target_depth hp)))"

text \<open>Line 104: the iteration cap is used at synthesis time only.\<close>

definition decode_max_iters :: "hparams \<Rightarrow> 't init_args \<Rightarrow> nat option" where
  "decode_max_iters hp a =
     (if \<not> (is_training a \<or> is_evaluating a) then Some (max_iters hp) else None)"

text \<open>Lines 107-111: the call of \<^verbatim>\<open>dynamic_decode\<close>.\<close>

definition decode_args :: "hparams \<Rightarrow> 't init_args \<Rightarrow> 't helper \<Rightarrow> 't decode_call" where
  "decode_args hp a h =
     \<lparr> dd_helper = h, dd_impute_finished = False,
       dd_maximum_iterations = decode_max_iters hp a,
       dd_swap_memory = tacotron_swap_with_cpu hp \<rparr>"

text \<open>Lines 100-160: decoding, the postnet, and the attributes of the model.\<close>

definition build_outputs ::
  "'t env \<Rightarrow> hparams \<Rightarrow> 't init_args \<Rightarrow> 't helper \<Rightarrow> 't tacotron \<Rightarrow> 't tacotron" where
  "build_outputs env hp a h m =
     (let batch_size = shape0 env (inputs a);
          encoder_outputs = encoder env (is_training a) (inputs a) (input_lengths a);
          (frames_prediction, stop_token_prediction, alignments) =
             decode env (is_training a) (is_evaluating a) encoder_outputs (decode_args hp a h);
          decoder_outputs = reshape_frames env frames_prediction batch_size (target_depth hp);
          stop_token_outputs = reshape_stop env stop_token_prediction batch_size;
          projected_residual = postnet env (is_training a) decoder_outputs (target_depth hp);
          final_outputs = add env decoder_outputs projected_residual;
          lf0_outputs = squeeze_last env (slice_last env final_outputs 0 (num_lf0 hp));
          mgc_outputs = slice_last env final_outputs (num_lf0 hp) (num_mgc hp);
          bap_outputs = slice_last env final_outputs (num_lf0 hp + num_mgc hp) (num_bap hp);
          m1 = (if is_training a then m\<lparr>self_ratio := Some (helper_ratio env h)\<rparr> else m)
      in m1\<lparr> self_inputs := Some (inputs a),
              self_input_lengths := Some (input_lengths a),
              self_decoder_outputs := Some decoder_outputs,
              self_final_outputs := Some final_outputs,
              self_alignments := Some alignments,
              self_stop_token_outputs := Some stop_token_outputs,
              self_stop_token_targets := Some (stop_token_targets a),
              self_lf0_outputs := Some lf0_outputs,
              self_mgc_outputs := Some mgc_outputs,
              self_bap_outputs := Some bap_outputs,
              self_lf0_targets := Some (lf0_targets a),
              self_mgc_targets := Some (mgc_targets a),
              self_bap_targets := Some (bap_targets a),
              self_targets_lengths := Some (targets_lengths a) \<rparr>)"

text \<open>
  \<^verbatim>\<open>initialize\<close>: the outcome and the attributes. An exception leaves the attributes as
  they are where it is raised.
\<close>

definition initialize ::
  "'t env \<Rightarrow> hparams \<Rightarrow> 't init_args \<Rightarrow> 't tacotron \<Rightarrow> error option \<times> 't tacotron" where
  "initialize env hp a m =
     (case config_checks hp a of
        Some e \<Rightarrow> (Some e, m)
      | None \<Rightarrow>
         (case assertions hp a of
            Some e \<Rightarrow> (Some e, m)
          | None \<Rightarrow>
             (case make_helper env hp a of
                Inl e \<Rightarrow> (Some e, m)
              | Inr h \<Rightarrow> (None, build_outputs env hp a h (m\<lparr>self_helper := Some h\<rparr>)))))"

section \<open>The decoding loop\<close>



section \<open>Loss composition: \<^verbatim>\<open>add_loss\<close> (lines 179-224)\<close>

text \<open>Reading an attribute that has not been assigned raises \<^verbatim>\<open>AttributeError\<close>.\<close>

definition attr :: "string \<Rightarrow> 'a option \<Rightarrow> error + 'a" where
  "attr name v = (case v of None \<Rightarrow> Inl (AttributeError name) | Some x \<Rightarrow> Inr x)"

definition and_then :: "error + 'a \<Rightarrow> ('a \<Rightarrow> error + 'b) \<Rightarrow> error + 'b" where
  "and_then r f = (case r of Inl e \<Rightarrow> Inl e | Inr x \<Rightarrow> f x)"

text \<open>Line 183: the targets, concatenated along the last axis.\<close>

definition world_targets :: "'t env \<Rightarrow> 't tacotron \<Rightarrow> error + 't" where
  "world_targets env m =
     and_then (attr ''lf0_targets'' (self_lf0_targets m)) (\<lambda>lf0.
     and_then (tf_expand_dims env lf0) (\<lambda>lf0'.
     and_then (attr ''mgc_targets'' (self_mgc_targets m)) (\<lambda>mgc.
     and_then (attr ''bap_targets'' (self_bap_targets m)) (\<lambda>bap.
       tf_concat env [Some lf0', mgc, bap]))))"

text \<open>
  Lines 196-202: the guided-attention loss. \<^verbatim>\<open>tf.pad\<close> with paddings
  \<^verbatim>\<open>[(0, 0), (0, N), (0, T)]\<close> appends \<open>N\<close> rows and \<open>T\<close> columns of the constant to every
  matrix of the batch; the slice \<^verbatim>\<open>[:, :N, :T]\<close> keeps the first \<open>N\<close> rows and \<open>T\<close>
  columns.
\<close>

definition tf_pad :: "nat \<Rightarrow> nat \<Rightarrow> real \<Rightarrow> tensor3 \<Rightarrow> tensor3" where
  "tf_pad p1 p2 c t =
     \<lparr> dim0 = dim0 t, dim1 = dim1 t + p1, dim2 = dim2 t + p2,
       elem = (\<lambda>b i j. if i < dim1 t \<and> j < dim2 t then elem t b i j else c) \<rparr>"

definition slice_front :: "nat \<Rightarrow> nat \<Rightarrow> tensor3 \<Rightarrow> tensor3" where
  "slice_front n1 n2 t = t\<lparr>dim1 := min n1 (dim1 t), dim2 := min n2 (dim2 t)\<rparr>"

definition reduce_sum :: "tensor3 \<Rightarrow> real" where
  "reduce_sum t =
     sum_list (map (\<lambda>b. sum_list (map (\<lambda>i. sum_list (map (\<lambda>j. elem t b i j)
       [0..<dim2 t])) [0..<dim1 t])) [0..<dim0 t])"

text \<open>The constant \<^verbatim>\<open>-1.\<close> that line 198 pads with and line 200 compares with.\<close>

definition sentinel :: real where
  "sentinel = - 1"

definition padded_alignments :: "hparams \<Rightarrow> tensor3 \<Rightarrow> tensor3" where
  "padded_alignments hp alignments =
     (let N = max_text_length hp; T = max_frame_num hp
      in slice_front N T (tf_pad N T sentinel alignments))"

definition attention_masks :: "tensor3 \<Rightarrow> tensor3" where
  "attention_masks A = A\<lparr>elem := (\<lambda>b i j. if elem A b i j \<noteq> sentinel then 1 else 0)\<rparr>"

definition guided_attention_loss :: "'t env \<Rightarrow> hparams \<Rightarrow> tensor3 \<Rightarrow> scalar" where
  "guided_attention_loss env hp alignments =
     (let N = max_text_length hp; T = max_frame_num hp;
          A = padded_alignments hp alignments;
          gts = GuidedAttention env N T;
          masks = attention_masks A;
          weighted = A\<lparr>elem := (\<lambda>b i j. \<bar>elem A b i j * gts i j\<bar> * elem masks b i j)\<rparr>
      in fdiv (reduce_sum weighted) (reduce_sum masks))"

text \<open>
  Lines 185-210: the local variables \<^verbatim>\<open>before_loss\<close>, \<^verbatim>\<open>after_loss\<close>,
  \<^verbatim>\<open>stop_token_loss\<close> and \<^verbatim>\<open>attention_loss\<close> after the conditional. The last one
  is assigned in the \<^verbatim>\<open>else\<close> branch only: after the other branch it is unbound
  (\<open>None\<close>).
\<close>

definition loss_terms ::
  "'t env \<Rightarrow> hparams \<Rightarrow> 't tacotron \<Rightarrow> error + (scalar \<times> scalar \<times> scalar \<times> scalar option)" where
  "loss_terms env hp m =
     (if mask_decoder hp then
        and_then (attr ''world_targets'' (self_world_targets m)) (\<lambda>wt.
        and_then (attr ''decoder_outputs'' (self_decoder_outputs m)) (\<lambda>dec.
        and_then (attr ''targets_lengths'' (self_targets_lengths m)) (\<lambda>lens.
        and_then (MaskedMSE env wt dec lens) (\<lambda>before_loss.
        and_then (attr ''final_outputs'' (self_final_outputs m)) (\<lambda>fin.
        and_then (MaskedMSE env wt fin lens) (\<lambda>after_loss.
        and_then (attr ''stop_token_targets'' (self_stop_token_targets m)) (\<lambda>stop_t.
        and_then (attr ''stop_token_outputs'' (self_stop_token_outputs m)) (\<lambda>stop_o.
        and_then (MaskedSigmoidCrossEntropy env stop_t stop_o lens) (\<lambda>stop_token_loss.
          Inr (before_loss, after_loss, stop_token_loss, None))))))))))
      else
        and_then (attr ''alignments'' (self_alignments m)) (\<lambda>al.
        let attention_loss = guided_attention_loss env hp al in
        and_then (attr ''world_targets'' (self_world_targets m)) (\<lambda>wt.
        and_then (attr ''decoder_outputs'' (self_decoder_outputs m)) (\<lambda>dec.
        and_then (attr ''final_outputs'' (self_final_outputs m)) (\<lambda>fin.
        and_then (attr ''stop_token_targets'' (self_stop_token_targets m)) (\<lambda>stop_t.
        and_then (attr ''stop_token_outputs'' (self_stop_token_outputs m)) (\<lambda>stop_o.
        and_then (case stop_t of
                    None \<Rightarrow> Inl (ValueError ''Both labels and logits must be provided.'')
                  | Some labels \<Rightarrow> Inr (mean_sigmoid_cross_entropy env labels stop_o))
                 (\<lambda>stop_token_loss.
          Inr (mean_abs_error env wt dec, mean_abs_error env wt fin, stop_token_loss,
               Some attention_loss)))))))))"

text \<open>
  Lines 213-215: the L2 regularization over the trainable variables whose name has
  neither \<^verbatim>\<open>bias\<close> nor \<^verbatim>\<open>Bias\<close> in it. A variable is its name and its elements.
  \<^verbatim>\<open>tf.add_n\<close> needs at least one tensor.
\<close>

type_synonym variable = "string \<times> real list"

fun substring_of :: "string \<Rightarrow> string \<Rightarrow> bool" where
  "substring_of sub [] = (sub = [])"
| "substring_of sub (c # cs) = (take (length sub) (c # cs) = sub \<or> substring_of sub cs)"

definition l2_loss :: "real list \<Rightarrow> real" where
  "l2_loss v = sum_list (map (\<lambda>x. x * x) v) / 2"

definition regularization :: "hparams \<Rightarrow> variable list \<Rightarrow> error + scalar" where
  "regularization hp all_vars =
     (let terms = map (\<lambda>v. l2_loss (snd v))
                    (filter (\<lambda>v. \<not> (substring_of ''bias'' (fst v) \<or> substring_of ''Bias'' (fst v)))
                       all_vars)
      in if terms = [] then Inl (ValueError ''inputs must be a list of at least one Tensor'')
         else Inr (Finite (sum_list terms * tacotron_reg_weight hp)))"

text \<open>
  \<^verbatim>\<open>add_loss\<close>, given the trainable variables of the graph. Lines 218-222 assign the
  terms to the attributes one by one; reading the unbound local \<^verbatim>\<open>attention_loss\<close> on
  line 222 raises \<^verbatim>\<open>UnboundLocalError\<close>. Line 224 sums the five terms.
\<close>

definition add_loss ::
  "'t env \<Rightarrow> hparams \<Rightarrow> variable list \<Rightarrow> 't tacotron \<Rightarrow> error option \<times> 't tacotron" where
  "add_loss env hp all_vars m =
     (case world_targets env m of
        Inl e \<Rightarrow> (Some e, m)
      | Inr wt \<Rightarrow>
         (let m1 = m\<lparr>self_world_targets := Some wt\<rparr>
          in case loss_terms env hp m1 of
               Inl e \<Rightarrow> (Some e, m1)
             | Inr (before_loss, after_loss, stop_token_loss, attention_loss) \<Rightarrow>
                (case regularization hp all_vars of
                   Inl e \<Rightarrow> (Some e, m1)
                 | Inr regularization_loss \<Rightarrow>
                    (let m2 = m1\<lparr> self_before_loss := Some before_loss,
                                   self_after_loss := Some after_loss,
                                   self_stop_token_loss := Some stop_token_loss,
                                   self_regularization_loss := Some regularization_loss \<rparr>
                     in case attention_loss of
                          None \<Rightarrow> (Some (UnboundLocalError ''attention_loss''), m2)
                        | Some att \<Rightarrow>
                            (None,
                             m2\<lparr> self_attention_loss := Some att,
                                 self_loss :=
                                   Some (fadd (fadd (fadd (fadd before_loss after_loss)
                                           stop_token_loss) regularization_loss) att) \<rparr>)))))"

section \<open>The scheduled rate as a function of the step\<close>



text \<open>An operation \<open>u\<close> runs before the operation \<open>x\<close> in a sequence of operations.\<close>

definition runs_before :: "op \<Rightarrow> op \<Rightarrow> op list \<Rightarrow> bool" where
  "runs_before u x sched = (u \<in> set (takeWhile (\<lambda>y. y \<noteq> x) sched))"

section \<open>Concrete configurations\<close>

text \<open>
  A small configuration with length-masking and learning-rate decay enabled, collaborators
  on tensors that are numbers, and the arguments of a training call and of a
  free-synthesis call.
\<close>

definition example_hparams :: hparams where
  "example_hparams =
     \<lparr> mask_decoder = True, num_lf0 = 1, num_mgc = 60, num_bap = 5, outputs_per_step = 1,
       tacotron_teacher_forcing_mode = ''constant'', max_iters = 20,
       tacotron_swap_with_cpu = False, max_text_length = 3, max_frame_num = 2,
       tacotron_reg_weight = 1 / 1000000, tacotron_decay_learning_rate = True,
       tacotron_decay_steps = 50, tacotron_decay_rate = 1 / 2,
       tacotron_initial_learning_rate = 1 / 1000, tacotron_start_decay = 100,
       tacotron_final_learning_rate = 1 / 100000, tacotron_clip_gradients = True \<rparr>"


definition example_alignments :: tensor3 where
  "example_alignments =
     \<lparr> dim0 = 1, dim1 = 2, dim2 = 3, elem = (\<lambda>b i j. if i = j then 1 else 0) \<rparr>"

definition example_env :: "nat env" where
  "example_env =
     \<lparr> shape0 = (\<lambda>x. 1), encoder = (\<lambda>tr x n. x), expand_dims = (\<lambda>x. x),
       concat = sum_list, helper_ratio = (\<lambda>h. 1),
       decode = (\<lambda>tr ev x c. (x, x, example_alignments)),
       reshape_frames = (\<lambda>x b d. x), reshape_stop = (\<lambda>x b. x), postnet = (\<lambda>tr x d. x),
       add = (\<lambda>x y. x + y), slice_last = (\<lambda>x i n. x), squeeze_last = (\<lambda>x. x),
       MaskedMSE = (\<lambda>t y n. Inr (Finite 1)),
       MaskedSigmoidCrossEntropy = (\<lambda>t y n. Inr (Finite 1)),
       GuidedAttention = (\<lambda>N T i j. \<bar>real i / real N - real j / real T\<bar>),
       mean_abs_error = (\<lambda>t y. Finite 1),
       mean_sigmoid_cross_entropy = (\<lambda>t y. Finite 1) \<rparr>"

definition synthesis_args :: "nat init_args" where
  "synthesis_args =
     \<lparr> inputs = 0, input_lengths = 0, lf0_targets = None, mgc_targets = None,
       bap_targets = None, stop_token_targets = None, targets_lengths = None, gta = False,
       global_step = None, is_training = False, is_evaluating = False \<rparr>"

definition training_args :: "nat init_args" where
  "training_args =
     \<lparr> inputs = 0, input_lengths = 0, lf0_targets = Some 1, mgc_targets = Some 2,
       bap_targets = Some 3, stop_token_targets = Some 4, targets_lengths = Some 5,
       gta = False, global_step = Some 6, is_training = True, is_evaluating = False \<rparr>"

definition example_graph :: graph where
  "example_graph = \<lparr> update_ops = [Op ''moving_mean_update'' [] []], control_deps = [] \<rparr>"

definition example_variables :: "variable list" where
  "example_variables = [(''postnet/kernel'', [1, 2]), (''postnet/bias'', [3])]"

section \<open>Properties of the schedule\<close>

lemma learning_rate_decay_set:
  "learning_rate_decay hp (m\<lparr>self_decay_steps := Some ds, self_decay_rate := Some dr\<rparr>) init s =
     Inr (min (max (exponential_decay init (s - tacotron_start_decay hp) ds dr)
                   (tacotron_final_learning_rate hp)) init)"
  by (simp add: learning_rate_decay_def)

lemma add_optimizer_learning_rate:
  "self_learning_rate (snd (add_optimizer g hp m s)) =
     Some (if tacotron_decay_learning_rate hp
           then min (max (exponential_decay (tacotron_initial_learning_rate hp)
                            (s - tacotron_start_decay hp) (tacotron_decay_steps hp)
                            (tacotron_decay_rate hp))
                         (tacotron_final_learning_rate hp))
                    (tacotron_initial_learning_rate hp)
           else tacotron_initial_learning_rate hp)"
  by (simp add: add_optimizer_def learning_rate_decay_set Let_def split: option.splits)

text \<open>
  Claim C10. With the learning-rate decay switched off, the learning rate that
  \<^verbatim>\<open>add_optimizer\<close> hands to the optimizer is the configured initial rate at every
  step, whatever the warmup, the decay window, the decay rate and the floor rate are.
\<close>

theorem constant_learning_rate:
  assumes "\<not> tacotron_decay_learning_rate hp"
  shows "self_learning_rate (snd (add_optimizer g hp m step)) =
           Some (tacotron_initial_learning_rate hp)"
  using assms by (simp add: add_optimizer_learning_rate)

theorem constant_learning_rate_witness:
  "\<not> tacotron_decay_learning_rate (example_hparams\<lparr>tacotron_decay_learning_rate := False\<rparr>)
   \<and> self_learning_rate (snd (add_optimizer example_graph
         (example_hparams\<lparr>tacotron_decay_learning_rate := False\<rparr>) (Tacotron :: nat tacotron) 500))
       = Some (1 / 1000)"
  using constant_learning_rate [of "example_hparams\<lparr>tacotron_decay_learning_rate := False\<rparr>"
          example_graph "Tacotron :: nat tacotron" 500]
  by (simp add: example_hparams_def)



section \<open>Properties of model construction\<close>

text \<open>
  Claim C2. A call of \<^verbatim>\<open>initialize\<close> with acoustic targets, without stop-token
  targets and not in ground-truth-aligned mode raises the configuration error of line 38;
  no attribute of the model has been assigned.
\<close>

theorem targets_without_stop_tokens:
  assumes "lf0_targets a \<noteq> None" and "stop_token_targets a = None" and "\<not> gta a"
  shows "initialize env hp a m =
           (Some (ValueError ''Mel targets are provided without corresponding token_targets''), m)"
  using assms by (simp add: initialize_def config_checks_def)

theorem targets_without_stop_tokens_witness:
  "lf0_targets (training_args\<lparr>stop_token_targets := None\<rparr>) \<noteq> None
   \<and> stop_token_targets (training_args\<lparr>stop_token_targets := None\<rparr>) = None
   \<and> \<not> gta (training_args\<lparr>stop_token_targets := None\<rparr>)
   \<and> initialize example_env example_hparams (training_args\<lparr>stop_token_targets := None\<rparr>)
        Tacotron =
        (Some (ValueError ''Mel targets are provided without corresponding token_targets''),
         Tacotron)"
  using targets_without_stop_tokens [of "training_args\<lparr>stop_token_targets := None\<rparr>"
          example_env example_hparams Tacotron]
  by (simp add: training_args_def)

text \<open>
  Claim C5, as stated: with length-masking enabled and no target lengths, construction
  raises a configuration error in every mode. The source guards the check with
  \<^verbatim>\<open>is_training\<close> (line 41): a free-synthesis call with masking enabled and no target
  lengths builds the model.
\<close>

theorem masking_without_lengths_counterexample:
  "mask_decoder example_hparams \<and> targets_lengths synthesis_args = None
   \<and> fst (initialize example_env example_hparams synthesis_args Tacotron) = None"
  by (simp add: initialize_def config_checks_def assertions_def make_helper_def
        synthesis_args_def example_hparams_def)

text \<open>
  Claim C5, amended. In training mode, a call with length-masking enabled and no target
  lengths raises a configuration error and assigns no attribute: the error of line 42,
  unless one of the three checks before it (lines 35-40) raises its own.
\<close>

theorem masking_without_lengths_training:
  assumes "is_training a" and "mask_decoder hp" and "targets_lengths a = None"
  shows "snd (initialize env hp a m) = m
         \<and> fst (initialize env hp a m) =
             Some (if lf0_targets a = None \<and> stop_token_targets a \<noteq> None then
                     ValueError ''no lf0 targets were provided but token_targets were given''
                   else if lf0_targets a \<noteq> None \<and> stop_token_targets a = None \<and> \<not> gta a then
                     ValueError ''Mel targets are provided without corresponding token_targets''
                   else if gta a \<and> mgc_targets a \<noteq> None then
                     ValueError ''Linear spectrogram prediction is not supported in GTA mode!''
                   else RuntimeError
                     ''Model set to mask paddings but no targets lengths provided for the mask!'')"
  using assms by (simp add: initialize_def config_checks_def)

theorem masking_without_lengths_training_witness:
  "is_training (training_args\<lparr>targets_lengths := None\<rparr>) \<and> mask_decoder example_hparams
   \<and> targets_lengths (training_args\<lparr>targets_lengths := None\<rparr>) = None
   \<and> initialize example_env example_hparams (training_args\<lparr>targets_lengths := None\<rparr>) Tacotron =
       (Some (RuntimeError
          ''Model set to mask paddings but no targets lengths provided for the mask!''),
        Tacotron)"
proof -
  let ?a = "training_args\<lparr>targets_lengths := None\<rparr>"
  have h1: "is_training ?a" by (simp add: training_args_def)
  have h2: "mask_decoder example_hparams" by (simp add: example_hparams_def)
  have h3: "targets_lengths ?a = None" by simp
  have "initialize example_env example_hparams ?a Tacotron =
        (fst (initialize example_env example_hparams ?a Tacotron),
         snd (initialize example_env example_hparams ?a Tacotron))" by simp
  with masking_without_lengths_training [OF h1 h2 h3, of example_env Tacotron] h1 h2 h3
  show ?thesis by (simp add: training_args_def)
qed

text \<open>
  Claim C9. In ground-truth-aligned mode \<^verbatim>\<open>initialize\<close> never returns normally. A call
  that passes the configuration checks (and the assertions) has no spectral-envelope
  targets, since line 39 rejects them; line 94 then concatenates the targets with the
  absent tensor, which raises, so no decoder targets and no helper are built, and no
  attribute is assigned.
\<close>

theorem gta_targets_never_built:
  assumes "gta a"
  shows "fst (initialize env hp a m) \<noteq> None
         \<and> (config_checks hp a = None \<longrightarrow> assertions hp a = None \<longrightarrow>
              mgc_targets a = None
              \<and> make_helper env hp a = Inl (ValueError ''None values not supported.'')
              \<and> initialize env hp a m = (Some (ValueError ''None values not supported.''), m))"
proof -
  have mk: "make_helper env hp a = Inl none_values" if "mgc_targets a = None"
    using assms that
    by (simp add: make_helper_def tf_concat_def tf_expand_dims_def split: option.splits)
  have mgc: "mgc_targets a = None" if "config_checks hp a = None"
    using assms that by (auto simp: config_checks_def split: if_splits)
  show ?thesis
  proof (cases "config_checks hp a")
    case None
    with mk mgc show ?thesis
      by (cases "assertions hp a") (simp_all add: initialize_def none_values_def)
  next
    case (Some e)
    then show ?thesis by (simp add: initialize_def)
  qed
qed

theorem gta_targets_never_built_witness:
  "gta (training_args\<lparr>gta := True, is_training := False, mgc_targets := None,
          stop_token_targets := None\<rparr>)
   \<and> initialize example_env example_hparams
       (training_args\<lparr>gta := True, is_training := False, mgc_targets := None,
          stop_token_targets := None\<rparr>) Tacotron
      = (Some (ValueError ''None values not supported.''), Tacotron)"
proof -
  let ?a = "training_args\<lparr>gta := True, is_training := False, mgc_targets := None,
              stop_token_targets := None\<rparr>"
  have g: "gta ?a" by simp
  have c: "config_checks example_hparams ?a = None"
    by (simp add: config_checks_def training_args_def)
  have s: "assertions example_hparams ?a = None"
    by (simp add: assertions_def example_hparams_def)
  from gta_targets_never_built [OF g, of example_env example_hparams Tacotron] c s g
  show ?thesis by simp
qed

section \<open>Properties of the loss composer\<close>

lemma and_then_Inr:
  "and_then r f = Inr y \<longleftrightarrow> (\<exists>x. r = Inr x \<and> f x = Inr y)"
  by (cases r) (simp_all add: and_then_def)

lemma loss_terms_masked:
  assumes "mask_decoder hp" and "loss_terms env hp m = Inr (b, a, s, att)"
  shows "att = None"
  using assms by (auto simp: loss_terms_def and_then_Inr)

text \<open>
  Whenever \<^verbatim>\<open>add_loss\<close> returns normally, length-masking is disabled and the loss is
  the sum of the five terms (line 224).
\<close>

lemma add_loss_sum:
  assumes "add_loss env hp all_vars m = (None, m')"
  shows "\<not> mask_decoder hp
         \<and> (\<exists>b a s r att.
              self_before_loss m' = Some b \<and> self_after_loss m' = Some a
              \<and> self_stop_token_loss m' = Some s \<and> self_regularization_loss m' = Some r
              \<and> self_attention_loss m' = Some att
              \<and> self_loss m' = Some (fadd (fadd (fadd (fadd b a) s) r) att))"
proof -
  from assms obtain wt where wt: "world_targets env m = Inr wt"
    by (cases "world_targets env m") (auto simp: add_loss_def)
  let ?m1 = "m\<lparr>self_world_targets := Some wt\<rparr>"
  from assms wt obtain b a s att where t: "loss_terms env hp ?m1 = Inr (b, a, s, att)"
    by (cases "loss_terms env hp ?m1") (auto simp: add_loss_def)
  from assms wt t obtain r where r: "regularization hp all_vars = Inr r"
    by (cases "regularization hp all_vars") (auto simp: add_loss_def)
  from assms wt t r obtain x where x: "att = Some x"
    by (cases att) (auto simp: add_loss_def)
  have "\<not> mask_decoder hp"
  proof
    assume "mask_decoder hp"
    with t have "att = None"
      by (auto simp: loss_terms_def and_then_def split: sum.splits)
    with x show False by simp
  qed
  moreover from assms wt t r x have
    "m' = ?m1\<lparr> self_before_loss := Some b, self_after_loss := Some a,
               self_stop_token_loss := Some s, self_regularization_loss := Some r,
               self_attention_loss := Some x,
               self_loss := Some (fadd (fadd (fadd (fadd b a) s) r) x) \<rparr>"
    by (simp add: add_loss_def)
  ultimately show ?thesis by simp
qed

text \<open>
  Claim C1 says that with length-masking enabled the loss composer produces the sum of the
  masked reconstruction losses, the masked stop-token loss and the regularization. The
  code does not: in that branch the local \<^verbatim>\<open>attention_loss\<close> is never assigned, so
  line 222 raises and \<^verbatim>\<open>self.loss\<close> is never set, against the method's own docstring
  (\<^verbatim>\<open>Sets "loss" field\<close>). With length-masking enabled \<^verbatim>\<open>add_loss\<close> never returns
  normally and leaves the loss attribute as it was.
\<close>

theorem masked_loss_unbound_local:
  assumes "mask_decoder hp"
  shows "fst (add_loss env hp all_vars m) \<noteq> None
         \<and> self_loss (snd (add_loss env hp all_vars m)) = self_loss m"
proof (cases "world_targets env m")
  case (Inl e)
  then show ?thesis by (simp add: add_loss_def)
next
  case (Inr wt)
  show ?thesis
  proof (cases "loss_terms env hp (m\<lparr>self_world_targets := Some wt\<rparr>)")
    case (Inl e)
    with Inr show ?thesis by (simp add: add_loss_def)
  next
    case terms: (Inr t)
    obtain b a s att where t: "t = (b, a, s, att)" by (cases t) auto
    with terms loss_terms_masked [OF assms] have att: "att = None" by blast
    show ?thesis
      using Inr terms t att
      by (cases "regularization hp all_vars") (simp_all add: add_loss_def)
  qed
qed

lemma training_example_initialized:
  "initialize example_env example_hparams training_args Tacotron =
     (None, build_outputs example_env example_hparams training_args
         (TacoTrainingHelper 1 6 66 False False (Some 6))
         (Tacotron\<lparr>self_helper := Some (TacoTrainingHelper 1 6 66 False False (Some 6))\<rparr>))"
  by (simp add: initialize_def config_checks_def assertions_def make_helper_def training_args_def
       example_hparams_def tf_concat_def tf_expand_dims_def example_env_def target_depth_def)

lemma training_example_regularization:
  "regularization example_hparams example_variables = Inr (Finite (1 / 400000))"
  by (simp add: regularization_def example_variables_def l2_loss_def example_hparams_def)

lemma training_example_loss:
  "fst (add_loss example_env example_hparams example_variables
          (snd (initialize example_env example_hparams training_args Tacotron)))
     = Some (UnboundLocalError ''attention_loss'')"
proof -
  have mask: "mask_decoder example_hparams" by (simp add: example_hparams_def)
  show ?thesis
    unfolding training_example_initialized
    by (simp add: add_loss_def world_targets_def loss_terms_def and_then_def attr_def
        build_outputs_def training_args_def tf_expand_dims_def tf_concat_def
        training_example_regularization example_env_def mask)
qed

theorem masked_loss_unbound_local_witness:
  "mask_decoder example_hparams
   \<and> fst (initialize example_env example_hparams training_args Tacotron) = None
   \<and> fst (add_loss example_env example_hparams example_variables
            (snd (initialize example_env example_hparams training_args Tacotron)))
       = Some (UnboundLocalError ''attention_loss'')
   \<and> self_loss (snd (add_loss example_env example_hparams example_variables
            (snd (initialize example_env example_hparams training_args Tacotron)))) = None"
proof -
  have mask: "mask_decoder example_hparams" by (simp add: example_hparams_def)
  have init: "self_loss (snd (initialize example_env example_hparams training_args Tacotron)) = None"
    unfolding training_example_initialized
    by (simp add: build_outputs_def Tacotron_def Let_def split: prod.splits)
  from masked_loss_unbound_local [OF mask, of example_env example_variables
         "snd (initialize example_env example_hparams training_args Tacotron)"]
       mask init training_example_loss training_example_initialized
  show ?thesis by simp
qed

section \<open>Properties of the decoding loop\<close>



lemma initialize_decodes_with:
  assumes "initialize env hp a m = (None, m')"
  shows "\<exists>h. make_helper env hp a = Inr h \<and> self_helper m' = Some h
           \<and> self_alignments m' =
               Some (snd (snd (decode env (is_training a) (is_evaluating a)
                  (encoder env (is_training a) (inputs a) (input_lengths a)) (decode_args hp a h))))"
  using assms
  by (auto simp: initialize_def build_outputs_def Let_def
           split: option.splits sum.splits prod.splits if_splits)




section \<open>Properties of the optimizer\<close>

lemma runs_dependency_first:
  assumes "runs before sched" and "x \<in> set sched"
    and "d \<in> set (op_inputs x @ control_inputs x)"
  shows "d \<in> set before \<or> d \<in> set (takeWhile (\<lambda>y. y \<noteq> x) sched)"
  using assms
proof (induction sched arbitrary: before)
  case Nil
  then show ?case by simp
next
  case (Cons y ys)
  show ?case
  proof (cases "y = x")
    case True
    with Cons.prems show ?thesis by (auto simp: list_all_iff)
  next
    case False
    with Cons.prems have "runs (before @ [y]) ys" and "x \<in> set ys" by auto
    from Cons.IH [OF this Cons.prems(3)] False show ?thesis by auto
  qed
qed

lemma add_optimizer_optimize:
  assumes "self_loss m = Some l"
  shows "fst (add_optimizer g hp m step) = None
         \<and> self_optimize (snd (add_optimizer g hp m step)) =
             Some (Op ''apply_gradients''
                     [if tacotron_clip_gradients hp
                      then Op ''clip_by_global_norm''
                             [Op ''compute_gradients'' [Op ''loss'' [] []] (control_deps g)]
                             (control_deps g)
                      else Op ''compute_gradients'' [Op ''loss'' [] []] (control_deps g),
                      Op ''variables'' [] [], Op ''global_step'' [] []]
                     (control_deps g @ update_ops g))"
  using assms
  by (simp add: add_optimizer_def learning_rate_decay_set create_op_def
        control_dependencies_def Let_def)

text \<open>
  Claim C7. When the loss has been composed, \<^verbatim>\<open>add_optimizer\<close> returns normally and
  every operation of the normalization-updates collection is a control input of the
  operation that applies the gradients; so in every execution of the graph that runs the
  parameter update, each of those updates has run before it.
\<close>

theorem updates_before_apply_gradients:
  assumes "self_loss m \<noteq> None"
  shows "\<exists>optimize. fst (add_optimizer g hp m step) = None
           \<and> self_optimize (snd (add_optimizer g hp m step)) = Some optimize
           \<and> (\<forall>u \<in> set (update_ops g).
                 u \<in> set (control_inputs optimize)
                 \<and> (\<forall>sched. runs [] sched \<and> optimize \<in> set sched
                       \<longrightarrow> runs_before u optimize sched))"
proof -
  from assms obtain l where l: "self_loss m = Some l" by auto
  let ?opt = "the (self_optimize (snd (add_optimizer g hp m step)))"
  from add_optimizer_optimize [OF l, of g hp step]
  have ok: "fst (add_optimizer g hp m step) = None"
    and opt: "self_optimize (snd (add_optimizer g hp m step)) = Some ?opt"
    and ctl: "control_inputs ?opt = control_deps g @ update_ops g"
    by simp_all
  have "u \<in> set (control_inputs ?opt)
        \<and> (\<forall>sched. runs [] sched \<and> ?opt \<in> set sched \<longrightarrow> runs_before u ?opt sched)"
    if u: "u \<in> set (update_ops g)" for u
  proof (intro conjI allI impI)
    from u ctl show c: "u \<in> set (control_inputs ?opt)" by simp
    fix sched
    assume "runs [] sched \<and> ?opt \<in> set sched"
    then have "runs [] sched" and "?opt \<in> set sched" by simp_all
    from runs_dependency_first [OF this, of u] c
    show "runs_before u ?opt sched" by (simp add: runs_before_def)
  qed
  with ok opt show ?thesis by blast
qed

theorem updates_before_apply_gradients_witness:
  "self_loss (Tacotron\<lparr>self_loss := Some (Finite 1)\<rparr> :: nat tacotron) \<noteq> None
   \<and> self_optimize (snd (add_optimizer example_graph example_hparams
        (Tacotron\<lparr>self_loss := Some (Finite 1)\<rparr> :: nat tacotron) 0)) =
       Some (Op ''apply_gradients''
               [Op ''clip_by_global_norm'' [Op ''compute_gradients'' [Op ''loss'' [] []] []] [],
                Op ''variables'' [] [], Op ''global_step'' [] []]
               [Op ''moving_mean_update'' [] []])
   \<and> runs_before (Op ''moving_mean_update'' [] [])
       (Op ''apply_gradients''
               [Op ''clip_by_global_norm'' [Op ''compute_gradients'' [Op ''loss'' [] []] []] [],
                Op ''variables'' [] [], Op ''global_step'' [] []]
               [Op ''moving_mean_update'' [] []])
       [Op ''loss'' [] [], Op ''variables'' [] [], Op ''global_step'' [] [],
        Op ''compute_gradients'' [Op ''loss'' [] []] [],
        Op ''moving_mean_update'' [] [],
        Op ''clip_by_global_norm'' [Op ''compute_gradients'' [Op ''loss'' [] []] []] [],
        Op ''apply_gradients''
               [Op ''clip_by_global_norm'' [Op ''compute_gradients'' [Op ''loss'' [] []] []] [],
                Op ''variables'' [] [], Op ''global_step'' [] []]
               [Op ''moving_mean_update'' [] []]]"
proof -
  let ?m = "Tacotron\<lparr>self_loss := Some (Finite 1)\<rparr> :: nat tacotron"
  let ?u = "Op ''moving_mean_update'' [] []"
  let ?opt = "Op ''apply_gradients''
               [Op ''clip_by_global_norm'' [Op ''compute_gradients'' [Op ''loss'' [] []] []] [],
                Op ''variables'' [] [], Op ''global_step'' [] []]
               [Op ''moving_mean_update'' [] []]"
  let ?sched = "[Op ''loss'' [] [], Op ''variables'' [] [], Op ''global_step'' [] [],
        Op ''compute_gradients'' [Op ''loss'' [] []] [], Op ''moving_mean_update'' [] [],
        Op ''clip_by_global_norm'' [Op ''compute_gradients'' [Op ''loss'' [] []] []] [],
        ?opt]"
  have l: "self_loss ?m \<noteq> None" by simp
  have o: "self_optimize (snd (add_optimizer example_graph example_hparams ?m 0)) = Some ?opt"
    using add_optimizer_optimize [of ?m "Finite 1" example_graph example_hparams 0]
    by (simp add: example_graph_def example_hparams_def)
  have r: "runs [] ?sched" by simp
  have u: "?u \<in> set (update_ops example_graph)" by (simp add: example_graph_def)
  from updates_before_apply_gradients [OF l, of example_graph example_hparams 0]
  obtain opt where p: "self_optimize (snd (add_optimizer example_graph example_hparams ?m 0)) = Some opt"
    and q: "\<forall>v \<in> set (update_ops example_graph).
              v \<in> set (control_inputs opt)
              \<and> (\<forall>sched. runs [] sched \<and> opt \<in> set sched \<longrightarrow> runs_before v opt sched)"
    by blast
  from p o have e: "opt = ?opt" by simp
  from q u have "\<forall>sched. runs [] sched \<and> opt \<in> set sched \<longrightarrow> runs_before ?u opt sched"
    by blast
  then have "runs [] ?sched \<and> opt \<in> set ?sched \<longrightarrow> runs_before ?u opt ?sched"
    by blast
  moreover have "opt \<in> set ?sched" unfolding e by simp
  ultimately have "runs_before ?u ?opt ?sched" using r e by blast
  with l o show ?thesis by simp
qed

section \<open>Properties of the guided-attention loss\<close>

lemma padded_shape:
  "dim0 (padded_alignments hp al) = dim0 al"
  "dim1 (padded_alignments hp al) = max_text_length hp"
  "dim2 (padded_alignments hp al) = max_frame_num hp"
  by (simp_all add: padded_alignments_def slice_front_def tf_pad_def Let_def)

lemma padded_elem:
  "elem (padded_alignments hp al) b i j =
     (if i < dim1 al \<and> j < dim2 al then elem al b i j else sentinel)"
  by (simp add: padded_alignments_def slice_front_def tf_pad_def Let_def)

lemma reduce_sum_sum:
  "reduce_sum t = (\<Sum>b<dim0 t. \<Sum>i<dim1 t. \<Sum>j<dim2 t. elem t b i j)"
  by (simp add: reduce_sum_def interv_sum_list_conv_sum_set_nat atLeast0LessThan)

lemma sum_if_less:
  fixes g :: "nat \<Rightarrow> real"
  shows "(\<Sum>i<n. if i < m then g i else 0) = (\<Sum>i<min n m. g i)"
proof (induction n)
  case 0
  then show ?case by simp
next
  case (Suc n)
  show ?case
  proof (cases "n < m")
    case True
    then have "min (Suc n) m = Suc (min n m)" and "min n m = n" by simp_all
    with Suc True show ?thesis by simp
  next
    case False
    then have "min (Suc n) m = min n m" by simp
    with Suc False show ?thesis by simp
  qed
qed

lemma sum_window:
  fixes f :: "nat \<Rightarrow> nat \<Rightarrow> real"
  shows "(\<Sum>i<N. \<Sum>j<T. if i < E \<and> j < D then f i j else 0) =
         (\<Sum>i<min N E. \<Sum>j<min T D. f i j)"
proof -
  have "(\<Sum>j<T. if i < E \<and> j < D then f i j else 0) =
        (if i < E then (\<Sum>j<min T D. f i j) else 0)" for i
    using sum_if_less [where g = "f i" and m = D and n = T] by simp
  then show ?thesis by (simp add: sum_if_less)
qed

lemma genuine_not_sentinel:
  assumes "0 \<le> x" shows "x \<noteq> sentinel"
  using assms by (simp add: sentinel_def)

text \<open>
  Claim C8. The sentinel that pads the alignments lies outside the range \<open>[0, 1]\<close> of the
  alignment probabilities. So, for alignments whose entries are probabilities, the padded
  and truncated matrix holds the alignment at every genuine position and the sentinel at
  every padding position, the mask is 1 at exactly the genuine positions, and the
  guided-attention loss is the sum of the penalty-weighted genuine entries divided by
  their number (not-a-number when there is none).
\<close>

theorem guided_attention_masks_valid_entries:
  assumes prob: "\<forall>b<dim0 al. \<forall>i<dim1 al. \<forall>j<dim2 al. 0 \<le> elem al b i j \<and> elem al b i j \<le> 1"
  shows "sentinel \<notin> {0..1}
    \<and> (\<forall>b<dim0 al. \<forall>i<max_text_length hp. \<forall>j<max_frame_num hp.
          elem (padded_alignments hp al) b i j =
            (if i < dim1 al \<and> j < dim2 al then elem al b i j else sentinel)
          \<and> elem (attention_masks (padded_alignments hp al)) b i j =
            (if i < dim1 al \<and> j < dim2 al then 1 else 0))
    \<and> guided_attention_loss env hp al =
        fdiv (\<Sum>b<dim0 al. \<Sum>i<min (max_text_length hp) (dim1 al).
                \<Sum>j<min (max_frame_num hp) (dim2 al).
                  \<bar>elem al b i j * GuidedAttention env (max_text_length hp) (max_frame_num hp) i j\<bar>)
             (real (dim0 al * min (max_text_length hp) (dim1 al) * min (max_frame_num hp) (dim2 al)))"
proof -
  let ?N = "max_text_length hp" and ?T = "max_frame_num hp"
  let ?A = "padded_alignments hp al"
  let ?g = "GuidedAttention env ?N ?T"
  have mask: "elem (attention_masks ?A) b i j = (if i < dim1 al \<and> j < dim2 al then 1 else 0)"
    if "b < dim0 al" for b i j
    using that prob by (auto simp: attention_masks_def padded_elem genuine_not_sentinel)
  have den: "reduce_sum (attention_masks ?A) =
             real (dim0 al * min ?N (dim1 al) * min ?T (dim2 al))"
  proof -
    have "reduce_sum (attention_masks ?A) =
          (\<Sum>b<dim0 al. \<Sum>i<?N. \<Sum>j<?T. elem (attention_masks ?A) b i j)"
      by (simp add: reduce_sum_sum attention_masks_def padded_shape)
    also have "\<dots> = (\<Sum>b<dim0 al. \<Sum>i<?N. \<Sum>j<?T. if i < dim1 al \<and> j < dim2 al then 1 else 0)"
      by (intro sum.cong refl) (simp add: mask)
    also have "\<dots> = (\<Sum>b<dim0 al. \<Sum>i<min ?N (dim1 al). \<Sum>j<min ?T (dim2 al). 1)"
      by (simp only: sum_window)
    also have "\<dots> = real (dim0 al * min ?N (dim1 al) * min ?T (dim2 al))"
      by simp
    finally show ?thesis .
  qed
  have num: "reduce_sum (?A\<lparr>elem := (\<lambda>b i j. \<bar>elem ?A b i j * ?g i j\<bar>
                                  * elem (attention_masks ?A) b i j)\<rparr>) =
             (\<Sum>b<dim0 al. \<Sum>i<min ?N (dim1 al). \<Sum>j<min ?T (dim2 al). \<bar>elem al b i j * ?g i j\<bar>)"
  proof -
    have "reduce_sum (?A\<lparr>elem := (\<lambda>b i j. \<bar>elem ?A b i j * ?g i j\<bar>
                                  * elem (attention_masks ?A) b i j)\<rparr>) =
          (\<Sum>b<dim0 al. \<Sum>i<?N. \<Sum>j<?T.
              \<bar>elem ?A b i j * ?g i j\<bar> * elem (attention_masks ?A) b i j)"
      by (simp add: reduce_sum_sum padded_shape)
    also have "\<dots> = (\<Sum>b<dim0 al. \<Sum>i<?N. \<Sum>j<?T.
                        if i < dim1 al \<and> j < dim2 al then \<bar>elem al b i j * ?g i j\<bar> else 0)"
      by (intro sum.cong refl) (simp add: mask padded_elem)
    also have "\<dots> = (\<Sum>b<dim0 al. \<Sum>i<min ?N (dim1 al). \<Sum>j<min ?T (dim2 al).
                        \<bar>elem al b i j * ?g i j\<bar>)"
      by (simp only: sum_window)
    finally show ?thesis .
  qed
  have loss: "guided_attention_loss env hp al =
        fdiv (\<Sum>b<dim0 al. \<Sum>i<min ?N (dim1 al). \<Sum>j<min ?T (dim2 al). \<bar>elem al b i j * ?g i j\<bar>)
             (real (dim0 al * min ?N (dim1 al) * min ?T (dim2 al)))"
    unfolding guided_attention_loss_def Let_def num den ..
  have "sentinel \<notin> {0..1}" by (simp add: sentinel_def)
  with mask loss show ?thesis by (simp add: padded_elem)
qed


theorem guided_attention_masks_valid_entries_witness:
  "guided_attention_loss example_env example_hparams example_alignments = Finite (1 / 24)
   \<and> elem (attention_masks (padded_alignments example_hparams example_alignments)) 0 1 1 = 1
   \<and> elem (attention_masks (padded_alignments example_hparams example_alignments)) 0 2 1 = 0"
proof -
  have prob: "\<forall>b<dim0 example_alignments. \<forall>i<dim1 example_alignments.
                \<forall>j<dim2 example_alignments.
                  0 \<le> elem example_alignments b i j \<and> elem example_alignments b i j \<le> 1"
    by (simp add: example_alignments_def)
  have dims: "dim0 example_alignments = 1" "dim1 example_alignments = 2"
    "dim2 example_alignments = 3" "max_text_length example_hparams = 3"
    "max_frame_num example_hparams = 2"
    by (simp_all add: example_alignments_def example_hparams_def)
  have two: "{..<2::nat} = {0, 1}" by auto
  from guided_attention_masks_valid_entries [OF prob, of example_hparams example_env]
  have m: "\<forall>b<1. \<forall>i<3. \<forall>j<2.
          elem (attention_masks (padded_alignments example_hparams example_alignments)) b i j =
            (if i < 2 \<and> j < 3 then 1 else 0)"
    and l: "guided_attention_loss example_env example_hparams example_alignments =
        fdiv (\<Sum>b<1. \<Sum>i<2. \<Sum>j<2.
                  \<bar>elem example_alignments b i j * GuidedAttention example_env 3 2 i j\<bar>) 4"
    by (simp_all add: dims)
  from l have "guided_attention_loss example_env example_hparams example_alignments = Finite (1 / 24)"
    by (simp add: two example_alignments_def example_env_def)
  moreover from m have "elem (attention_masks (padded_alignments example_hparams example_alignments)) 0 1 1 = 1"
    by simp
  moreover from m have "elem (attention_masks (padded_alignments example_hparams example_alignments)) 0 2 1 = 0"
    by simp
  ultimately show ?thesis by simp
qed

section \<open>The shape of the schedule\<close>








end
